theory Spec2Isabelle
  imports Main
begin

section \<open>Runtime values\<close>

text \<open>
  The labeler is one TypeScript file, \<^verbatim>\<open>src/main.ts\<close>. Its inputs are strings (action
  inputs), values decoded from YAML or JSON (the configuration, the webhook payload) and
  the answers of the hosting platform's API. A decoded value is a \<open>json\<close>: no such value is
  a function. The properties of an object are listed in the order \<^verbatim>\<open>for ... in\<close> visits
  them. Strings are lists of characters; iterating a string yields its characters as
  one-character strings.
\<close>

datatype json =
    JNull
  | JBool bool
  | JNum int
  | JString string
  | JArray "json list"
  | JObject "(string \<times> json) list"

text \<open>A thrown JavaScript error: its class and its \<^verbatim>\<open>message\<close>.\<close>

datatype error = Error string | TypeError string

fun message :: "error \<Rightarrow> string" where
  "message (Error m) = m"
| "message (TypeError m) = m"

text \<open>
  A JavaScript number as this program uses it: the result of \<^verbatim>\<open>parseInt\<close>, which is
  \<^verbatim>\<open>NaN\<close> or an integer, compared with zero and decremented by one. Integers are exact
  (the model does not round to a double, so it is the program's arithmetic for
  magnitudes below \<open>2 ^ 53\<close>).
\<close>

datatype jsnum = NaN | Fin int

fun le_zero :: "jsnum \<Rightarrow> bool" where
  "le_zero NaN = False"
| "le_zero (Fin n) = (n \<le> 0)"

fun minus_one :: "jsnum \<Rightarrow> jsnum" where
  "minus_one NaN = NaN"
| "minus_one (Fin n) = Fin (n - 1)"

subsection \<open>Numbers and values in template strings\<close>

definition digit_char :: "nat \<Rightarrow> char" where
  "digit_char d = ''0123456789'' ! d"

fun string_of_nat :: "nat \<Rightarrow> string" where
  "string_of_nat n =
     (if n < 10 then [digit_char n]
      else string_of_nat (n div 10) @ [digit_char (n mod 10)])"

declare string_of_nat.simps [simp del]

definition string_of_int :: "int \<Rightarrow> string" where
  "string_of_int i = (if i < 0 then CHR ''-'' # string_of_nat (nat (- i)) else string_of_nat (nat i))"

fun string_of_jsnum :: "jsnum \<Rightarrow> string" where
  "string_of_jsnum NaN = ''NaN''"
| "string_of_jsnum (Fin i) = string_of_int i"

fun join :: "string \<Rightarrow> string list \<Rightarrow> string" where
  "join sep [] = []"
| "join sep [s] = s"
| "join sep (s # t # ss) = s @ sep @ join sep (t # ss)"

text \<open>\<^verbatim>\<open>`${v}`\<close>: the string a value is printed as inside a template string.\<close>

fun to_String :: "json \<Rightarrow> string" where
  "to_String JNull = ''null''"
| "to_String (JBool b) = (if b then ''true'' else ''false'')"
| "to_String (JNum i) = string_of_int i"
| "to_String (JString s) = s"
| "to_String (JArray xs) =
     join '','' (map (\<lambda>x. if x = JNull then [] else to_String x) xs)"
| "to_String (JObject ps) = ''[object Object]''"

subsection \<open>\<^verbatim>\<open>parseInt\<close> with no radix argument\<close>

definition is_ws :: "char \<Rightarrow> bool" where
  "is_ws c = (c \<in> set [CHR 0x09, CHR 0x0A, CHR 0x0B, CHR 0x0C, CHR 0x0D, CHR 0x20, CHR 0xA0])"

fun index_of :: "char \<Rightarrow> string \<Rightarrow> nat option" where
  "index_of c [] = None"
| "index_of c (d # ds) =
     (if c = d then Some 0 else map_option Suc (index_of c ds))"


text \<open>The value of a character as a digit of radix \<open>R\<close> (10 or 16 here), if it is one.\<close>

definition digit_value :: "nat \<Rightarrow> char \<Rightarrow> nat option" where
  "digit_value R c =
     (case (case index_of c ''0123456789abcdef'' of
              Some d \<Rightarrow> Some d
            | None \<Rightarrow> index_of c ''0123456789ABCDEF'') of
        None \<Rightarrow> None
      | Some d \<Rightarrow> if d < R then Some d else None)"

text \<open>
  \<^verbatim>\<open>parseInt(s)\<close>: skip leading white space, read a sign, read a \<^verbatim>\<open>0x\<close> prefix
  (radix 16) or stay at radix 10, take the longest prefix of digits; no digit gives
  \<^verbatim>\<open>NaN\<close>. What follows the digits is ignored.
\<close>

definition read_sign :: "string \<Rightarrow> int \<times> string" where
  "read_sign S =
     (case S of
        [] \<Rightarrow> (1, S)
      | c # r \<Rightarrow> if c = CHR ''-'' then (- 1, r) else if c = CHR ''+'' then (1, r) else (1, S))"

definition read_radix :: "string \<Rightarrow> nat \<times> string" where
  "read_radix S =
     (case S of
        c # x # r \<Rightarrow> if c = CHR ''0'' \<and> (x = CHR ''x'' \<or> x = CHR ''X'') then (16, r) else (10, S)
      | _ \<Rightarrow> (10, S))"

definition parseInt :: "string \<Rightarrow> jsnum" where
  "parseInt s =
     (case read_sign (dropWhile is_ws s) of
        (sign, S1) \<Rightarrow>
          (case read_radix S1 of
             (R, S2) \<Rightarrow>
               (let Z = takeWhile (\<lambda>c. digit_value R c \<noteq> None) S2
                in if Z = [] then NaN
                   else Fin (sign * int (foldl (\<lambda>a c. a * R + the (digit_value R c)) 0 Z)))))"

section \<open>Effects\<close>

text \<open>
  What a run does to the outside is a list of events, in order: the lines it logs through
  \<^verbatim>\<open>core.debug\<close>, \<^verbatim>\<open>core.warning\<close> and \<^verbatim>\<open>core.error\<close>, the failure mark
  \<^verbatim>\<open>core.setFailed\<close>, and the API requests it issues (recorded when issued, whether
  they succeed or not).
\<close>

datatype event =
    Debug string
  | Warning string
  | ErrorLog error
  | SetFailed string
  | Api_getContents string
  | Api_pulls_list
  | Api_listFiles nat
  | Api_addLabels nat "string list"

text \<open>An action: the events it emitted, and the error it threw or the value it returned.\<close>

type_synonym 'a act = "event list \<times> (error + 'a)"

definition unit_act :: "'a \<Rightarrow> 'a act" where
  "unit_act x = ([], Inr x)"

definition throw :: "error \<Rightarrow> 'a act" where
  "throw e = ([], Inl e)"

definition emit :: "event list \<Rightarrow> unit act" where
  "emit evs = (evs, Inr ())"

definition bind_act :: "'a act \<Rightarrow> ('a \<Rightarrow> 'b act) \<Rightarrow> 'b act" where
  "bind_act m f =
     (case m of
        (t, Inl e) \<Rightarrow> (t, Inl e)
      | (t, Inr x) \<Rightarrow> (case f x of (t', r) \<Rightarrow> (t @ t', r)))"

definition then_act :: "unit act \<Rightarrow> 'b act \<Rightarrow> 'b act" where
  "then_act m n = bind_act m (\<lambda>_. n)"

definition lift :: "error + 'a \<Rightarrow> 'a act" where
  "lift r = ([], r)"

text \<open>An open pull request as the listing returns it: \<^verbatim>\<open>pr.number\<close> and the names
  \<^verbatim>\<open>pr.labels.map(l => l.name)\<close>, in order.\<close>

record pull =
  number :: nat
  label_names :: "string list"

text \<open>
  What the iterator of the paginated listing yields for a page: the response of the
  request, an object that holds the pull requests of the page under \<^verbatim>\<open>data\<close> (as the
  response of the sibling request does, which line 137 reads through \<^verbatim>\<open>.data\<close>).
\<close>

record response =
  data :: "pull list"

text \<open>\<^verbatim>\<open>github.context.payload.pull_request\<close>: \<^verbatim>\<open>number\<close> is typed a number, every
  other property is \<^verbatim>\<open>any\<close>; the payload is decoded JSON.\<close>

record pull_request_payload =
  payload_number :: nat
  payload_labels :: json

text \<open>
  The environment of one run. \<open>input\<close> gives the raw value of an action input (empty when
  not supplied). \<open>configuration\<close> is what \<^verbatim>\<open>fetchContent\<close> followed by
  \<^verbatim>\<open>yaml.safeLoad\<close> gives for a path: an error, or the decoded value. \<open>Minimatch\<close> is the
  constructor of the glob library: it throws, or gives the \<^verbatim>\<open>match\<close> predicate of the
  pattern. \<open>open_pulls\<close> are the responses for the pages of the listing, each fetched
  when the iterator is asked for the next value; a fetch can fail. \<open>listFiles\<close> and \<open>addLabels_response\<close> are the answers of
  the API (\<open>None\<close>: the labels were added).
\<close>

record env =
  input :: "string \<Rightarrow> string"
  configuration :: "string \<Rightarrow> error + json"
  Minimatch :: "json \<Rightarrow> error + (string \<Rightarrow> bool)"
  pull_request :: "pull_request_payload option"
  open_pulls :: "(error + response) list"
  listFiles :: "nat \<Rightarrow> error + string list"
  addLabels_response :: "nat \<Rightarrow> string list \<Rightarrow> error option"

text \<open>\<^verbatim>\<open>core.getInput(name, {required})\<close>: a required input that is empty throws; the
  value is returned trimmed.\<close>

definition trim :: "string \<Rightarrow> string" where
  "trim s = rev (dropWhile is_ws (rev (dropWhile is_ws s)))"

definition getInput :: "env \<Rightarrow> string \<Rightarrow> bool \<Rightarrow> string act" where
  "getInput env name required =
     (let val = input env name
      in if required \<and> val = [] then throw (Error (''Input required and not supplied: '' @ name))
         else unit_act (trim val))"

section \<open>Glob patterns\<close>

text \<open>
  Modelled from the spec: the glob matcher is the class \<^verbatim>\<open>Minimatch\<close> of an imported
  package, which is not under \<^verbatim>\<open>src/\<close>. The spec gives its semantics as: \<^verbatim>\<open>*\<close> stands
  for any characters within a path segment, \<^verbatim>\<open>**\<close> crosses path separators, \<^verbatim>\<open>?\<close> is
  one character, and there are bracket classes and brace alternation. The model is that
  much and no more: a pattern is expanded at its braces, each expansion and the path are
  split at \<^verbatim>\<open>/\<close>, a segment \<^verbatim>\<open>**\<close> stands for any number of whole segments, and every
  other segment is matched character by character. Negated patterns, comments and the
  treatment of leading dots are not modelled.

  A pattern read for its braces: plain characters, and groups of alternatives.
\<close>

datatype item = Chr char | Alt "item list list"

text \<open>Modelled from the spec: alternatives written out again with their commas.\<close>

fun commas :: "item list list \<Rightarrow> item list" where
  "commas [] = []"
| "commas [a] = a"
| "commas (a # b # r) = a @ Chr (CHR '','') # commas (b # r)"

text \<open>Modelled from the spec: a group that is never closed stands for its own text.\<close>

definition open_group :: "item list list \<Rightarrow> item list" where
  "open_group alts = Chr (CHR ''{'') # commas alts"

text \<open>Modelled from the spec: a closed group is an alternation when it has a comma, and
  stands for its own text when it has none.\<close>

definition close_group :: "item list list \<Rightarrow> item list" where
  "close_group alts =
     (if length alts < 2 then Chr (CHR ''{'') # commas alts @ [Chr (CHR ''}'')] else [Alt alts])"

text \<open>
  Modelled from the spec: reading the braces of a pattern, left to right. The first
  argument holds the groups that are open, innermost first, each with its finished
  alternatives and the alternative being read (both newest first); its last entry is
  the pattern outside every group.
\<close>

fun parse_braces :: "(item list list \<times> item list) list \<Rightarrow> string \<Rightarrow> item list" where
  "parse_braces [] cs = []"
| "parse_braces [(alts, cur)] [] = rev cur"
| "parse_braces ((alts, cur) # (alts', cur') # below) [] =
     parse_braces ((alts', rev (open_group (rev (rev cur # alts))) @ cur') # below) []"
| "parse_braces ((alts, cur) # below) (c # cs) =
     (if c = CHR ''{'' then parse_braces (([], []) # (alts, cur) # below) cs
      else (case below of
              [] \<Rightarrow> parse_braces [(alts, Chr c # cur)] cs
            | (alts', cur') # below' \<Rightarrow>
                if c = CHR '','' then parse_braces ((rev cur # alts, []) # below) cs
                else if c = CHR ''}'' then
                  parse_braces ((alts', rev (close_group (rev (rev cur # alts))) @ cur') # below') cs
                else parse_braces ((alts, Chr c # cur) # below) cs))"

text \<open>Modelled from the spec: the patterns a pattern with alternations stands for.\<close>

fun expand :: "item list \<Rightarrow> string list" where
  "expand [] = [[]]"
| "expand (Chr c # r) = map ((#) c) (expand r)"
| "expand (Alt alts # r) =
     concat (map (\<lambda>a. map ((@) a) (expand r)) (concat (map expand alts)))"

text \<open>Modelled from the spec: brace alternation, \<^verbatim>\<open>a.{ts,js}\<close> for \<^verbatim>\<open>a.ts\<close> and \<^verbatim>\<open>a.js\<close>.\<close>

definition brace_expand :: "string \<Rightarrow> string list" where
  "brace_expand pattern = expand (parse_braces [([], [])] pattern)"

text \<open>Modelled from the spec: what one place of a segment pattern stands for: a
  character, any one character, any characters, or one character of a class.\<close>

datatype tok = Lit char | One | Star | Class string

text \<open>Modelled from the spec: \<^verbatim>\<open>*\<close> and \<^verbatim>\<open>?\<close> are the wildcards; any other character
  outside a class stands for itself.\<close>

definition tok_of :: "char \<Rightarrow> tok" where
  "tok_of c = (if c = CHR ''*'' then Star else if c = CHR ''?'' then One else Lit c)"

text \<open>
  Modelled from the spec: a segment pattern read into its places. A bracket opens a
  class when a closing bracket follows (the first argument then holds the body read so
  far, newest first); otherwise it stands for itself.
\<close>

fun scan :: "string option \<Rightarrow> string \<Rightarrow> tok list" where
  "scan None [] = []"
| "scan (Some body) [] = []"
| "scan None (c # cs) =
     (if c = CHR ''['' \<and> CHR '']'' \<in> set cs then scan (Some []) cs
      else tok_of c # scan None cs)"
| "scan (Some body) (c # cs) =
     (if c = CHR '']'' then Class (rev body) # scan None cs else scan (Some (c # body)) cs)"

text \<open>Modelled from the spec: the characters of a class body, single ones and ranges
  \<^verbatim>\<open>a-z\<close>; a body that starts with \<^verbatim>\<open>!\<close> or \<^verbatim>\<open>^\<close> is the complement.\<close>

fun in_ranges :: "string \<Rightarrow> char \<Rightarrow> bool" where
  "in_ranges (lo # m # hi # r) c =
     (if m = CHR ''-'' then
        ((of_char lo :: nat) \<le> of_char c \<and> (of_char c :: nat) \<le> of_char hi) \<or> in_ranges r c
      else lo = c \<or> in_ranges (m # hi # r) c)"
| "in_ranges (x # r) c = (x = c \<or> in_ranges r c)"
| "in_ranges [] c = False"

text \<open>Modelled from the spec: whether a character is one of a bracket class.\<close>

definition in_class :: "string \<Rightarrow> char \<Rightarrow> bool" where
  "in_class body c =
     (case body of
        [] \<Rightarrow> False
      | b # r \<Rightarrow> if b = CHR ''!'' \<or> b = CHR ''^'' then \<not> in_ranges r c else in_ranges body c)"

text \<open>Modelled from the spec: a segment pattern against a segment of a path.\<close>

fun wild :: "tok list \<Rightarrow> string \<Rightarrow> bool" where
  "wild [] s = (s = [])"
| "wild (Star # ps) s = (wild ps s \<or> (case s of [] \<Rightarrow> False | c # cs \<Rightarrow> wild (Star # ps) cs))"
| "wild (One # ps) s = (case s of [] \<Rightarrow> False | c # cs \<Rightarrow> wild ps cs)"
| "wild (Lit p # ps) s = (case s of [] \<Rightarrow> False | c # cs \<Rightarrow> p = c \<and> wild ps cs)"
| "wild (Class body # ps) s = (case s of [] \<Rightarrow> False | c # cs \<Rightarrow> in_class body c \<and> wild ps cs)"

text \<open>Modelled from the spec: a pattern or a path as its segments, split at every
  path separator.\<close>

fun split_path :: "string \<Rightarrow> string list" where
  "split_path [] = [[]]"
| "split_path (c # cs) =
     (if c = CHR ''/'' then [] # split_path cs
      else (case split_path cs of [] \<Rightarrow> [[c]] | s # ss \<Rightarrow> (c # s) # ss))"

text \<open>Modelled from the spec: segments of a pattern against segments of a path, where
  the segment \<^verbatim>\<open>**\<close> crosses path separators.\<close>

fun match_parts :: "string list \<Rightarrow> string list \<Rightarrow> bool" where
  "match_parts [] fs = (fs = [])"
| "match_parts (p # ps) fs =
     (if p = ''**'' then
        (match_parts ps fs \<or> (case fs of [] \<Rightarrow> False | f # fs' \<Rightarrow> match_parts (p # ps) fs'))
      else (case fs of [] \<Rightarrow> False | f # fs' \<Rightarrow> wild (scan None p) f \<and> match_parts ps fs'))"

text \<open>Modelled from the spec: whether a glob pattern matches a path: one of its brace
  expansions does.\<close>

definition glob_match :: "string \<Rightarrow> string \<Rightarrow> bool" where
  "glob_match pattern file =
     list_ex (\<lambda>p. match_parts (split_path p) (split_path file)) (brace_expand pattern)"

text \<open>
  Modelled from the spec: the constructor of the absent glob library, for the
  patterns the spec describes. A pattern that is not a string is refused with a
  \<^verbatim>\<open>TypeError\<close>; a string pattern always compiles.
\<close>

fun Minimatch_model :: "json \<Rightarrow> error + (string \<Rightarrow> bool)" where
  "Minimatch_model (JString pattern) = Inr (glob_match pattern)"
| "Minimatch_model _ = Inl (TypeError ''glob pattern string required'')"

section \<open>The configuration\<close>

text \<open>
  \<^verbatim>\<open>Map.prototype.set\<close> on a map kept in insertion order: a key already present keeps
  its place and takes the new value.
\<close>

fun map_set :: "'k \<Rightarrow> 'v \<Rightarrow> ('k \<times> 'v) list \<Rightarrow> ('k \<times> 'v) list" where
  "map_set k v [] = [(k, v)]"
| "map_set k v ((k', v') # m) =
     (if k = k' then (k, v) # m else (k', v') # map_set k v m)"

text \<open>
  The keys \<^verbatim>\<open>for (const label in configObject)\<close> visits, each with
  \<^verbatim>\<open>configObject[label]\<close>: the properties of an object, the indices of an array or of a
  string, nothing for any other value.
\<close>

fun for_in :: "json \<Rightarrow> (string \<times> json) list" where
  "for_in (JObject ps) = ps"
| "for_in (JArray xs) = zip (map string_of_nat [0..<length xs]) xs"
| "for_in (JString s) = zip (map string_of_nat [0..<length s]) (map (\<lambda>c. JString [c]) s)"
| "for_in _ = []"

text \<open>The loop of \<^verbatim>\<open>getLabelGlobMapFromObject\<close>, over the properties still to visit.\<close>

fun labelGlobs_loop ::
  "(string \<times> json) list \<Rightarrow> (string \<times> json list) list \<Rightarrow> error + (string \<times> json list) list"
where
  "labelGlobs_loop [] labelGlobs = Inr labelGlobs"
| "labelGlobs_loop ((label, v) # rest) labelGlobs =
     (case v of
        JString g \<Rightarrow> labelGlobs_loop rest (map_set label [JString g] labelGlobs)
      | JArray gs \<Rightarrow> labelGlobs_loop rest (map_set label gs labelGlobs)
      | _ \<Rightarrow> Inl (Error (''found unexpected type for label '' @ label
                           @ '' (should be string or array of globs)'')))"

definition getLabelGlobMapFromObject :: "json \<Rightarrow> error + (string \<times> json list) list" where
  "getLabelGlobMapFromObject configObject = labelGlobs_loop (for_in configObject) []"

definition getLabelGlobs :: "env \<Rightarrow> string \<Rightarrow> (string \<times> json list) list act" where
  "getLabelGlobs env configurationPath =
     then_act (emit [Api_getContents configurationPath])
       (bind_act (lift (configuration env configurationPath))
          (\<lambda>configObject. lift (getLabelGlobMapFromObject configObject)))"

section \<open>Matching and the decision\<close>

text \<open>The inner loop of \<^verbatim>\<open>checkGlobs\<close>: the files against one compiled pattern.\<close>

fun match_files :: "(string \<Rightarrow> bool) \<Rightarrow> string list \<Rightarrow> event list \<times> bool" where
  "match_files matcher [] = ([], False)"
| "match_files matcher (changedFile # rest) =
     (if matcher changedFile
      then ([Debug ('' - '' @ changedFile), Debug ('' '' @ changedFile @ '' matches'')], True)
      else (case match_files matcher rest of (t, b) \<Rightarrow> (Debug ('' - '' @ changedFile) # t, b)))"

fun checkGlobs :: "env \<Rightarrow> string list \<Rightarrow> json list \<Rightarrow> bool act" where
  "checkGlobs env changedFiles [] = unit_act False"
| "checkGlobs env changedFiles (glob # globs) =
     then_act (emit [Debug ('' checking pattern '' @ to_String glob)])
       (case Minimatch env glob of
          Inl e \<Rightarrow> throw e
        | Inr matcher \<Rightarrow>
            (case match_files matcher changedFiles of
               (t, True) \<Rightarrow> (t, Inr True)
             | (t, False) \<Rightarrow> then_act (emit t) (checkGlobs env changedFiles globs)))"

definition getChangedFiles :: "env \<Rightarrow> nat \<Rightarrow> string list act" where
  "getChangedFiles env prNumber =
     then_act (emit [Api_listFiles prNumber])
       (bind_act (lift (listFiles env prNumber))
          (\<lambda>changedFiles.
             then_act (emit (Debug ''found changed files:''
                             # map (\<lambda>file. Debug (''  '' @ file)) changedFiles))
               (unit_act changedFiles)))"

definition addLabels :: "env \<Rightarrow> nat \<Rightarrow> string list \<Rightarrow> unit act" where
  "addLabels env prNumber labels =
     then_act (emit [Debug (''adding labels to pr #{prNumber}: ''
                            @ join '', '' (map (\<lambda>l. [CHR 0x22] @ l @ [CHR 0x22]) labels)),
                     Api_addLabels prNumber labels])
       (case addLabels_response env prNumber labels of
          Some e \<Rightarrow> throw e
        | None \<Rightarrow> unit_act ())"

text \<open>The loop over \<^verbatim>\<open>labelGlobs.entries()\<close> in \<^verbatim>\<open>processPR\<close>, with \<^verbatim>\<open>labelsToAdd\<close>
  as built so far.\<close>

fun rules_loop ::
  "env \<Rightarrow> string set \<Rightarrow> string list \<Rightarrow> (string \<times> json list) list \<Rightarrow> string list
   \<Rightarrow> string list act"
where
  "rules_loop env existingLabels changedFiles [] labelsToAdd = unit_act labelsToAdd"
| "rules_loop env existingLabels changedFiles ((label, globs) # rest) labelsToAdd =
     then_act (emit [Debug (''processing '' @ label)])
       (if label \<in> existingLabels then
          then_act (emit [Debug (''pr #{prNumber} is already labeled '' @ [CHR 0x22] @ label @ [CHR 0x22])])
            (rules_loop env existingLabels changedFiles rest labelsToAdd)
        else
          bind_act (checkGlobs env changedFiles globs)
            (\<lambda>hit. rules_loop env existingLabels changedFiles rest
                      (if hit then labelsToAdd @ [label] else labelsToAdd)))"

text \<open>Lines 98 to 100: the not-found label is pushed when it is a non-empty string and
  nothing was pushed before.\<close>

definition push_notFound :: "string \<Rightarrow> string list \<Rightarrow> string list" where
  "push_notFound notFoundLabel labelsToAdd =
     (if notFoundLabel \<noteq> [] \<and> length labelsToAdd = 0 then labelsToAdd @ [notFoundLabel]
      else labelsToAdd)"

text \<open>The value of \<^verbatim>\<open>labelsToAdd\<close> at line 102, the decision, from the changed files.\<close>

definition labelsToAdd_of ::
  "env \<Rightarrow> string set \<Rightarrow> string list \<Rightarrow> (string \<times> json list) list \<Rightarrow> string \<Rightarrow> string list act"
where
  "labelsToAdd_of env existingLabels changedFiles labelGlobs notFoundLabel =
     bind_act (rules_loop env existingLabels changedFiles labelGlobs [])
       (\<lambda>labelsToAdd. unit_act (push_notFound notFoundLabel labelsToAdd))"

text \<open>The \<^verbatim>\<open>try\<close> block of \<^verbatim>\<open>processPR\<close>; falling out of it returns \<^verbatim>\<open>false\<close>.\<close>

definition processPR_try ::
  "env \<Rightarrow> nat \<Rightarrow> string set \<Rightarrow> (string \<times> json list) list \<Rightarrow> string \<Rightarrow> bool act"
where
  "processPR_try env prNumber existingLabels labelGlobs notFoundLabel =
     then_act (emit [Debug (''fetching changed files for pr #'' @ string_of_nat prNumber)])
       (bind_act (getChangedFiles env prNumber)
          (\<lambda>changedFiles.
             bind_act (labelsToAdd_of env existingLabels changedFiles labelGlobs notFoundLabel)
               (\<lambda>labelsToAdd.
                  if length labelsToAdd > 0 then
                    then_act (addLabels env prNumber labelsToAdd) (unit_act True)
                  else unit_act False)))"

definition processPR ::
  "env \<Rightarrow> nat \<Rightarrow> string set \<Rightarrow> (string \<times> json list) list \<Rightarrow> string \<Rightarrow> event list \<times> bool"
where
  "processPR env prNumber existingLabels labelGlobs notFoundLabel =
     (case processPR_try env prNumber existingLabels labelGlobs notFoundLabel of
        (t, Inl e) \<Rightarrow> (t @ [ErrorLog e, SetFailed (message e)], False)
      | (t, Inr r) \<Rightarrow> (t, r))"

section \<open>The run\<close>

text \<open>
  \<^verbatim>\<open>new Set(...names)\<close>: the spread passes the names as separate arguments and the
  constructor reads the first one only, as an iterable. With no name the set is empty;
  otherwise it holds the characters of the first name.
\<close>

definition new_Set_spread :: "string list \<Rightarrow> string set" where
  "new_Set_spread names = (case names of [] \<Rightarrow> {} | first # _ \<Rightarrow> set (map (\<lambda>c. [c]) first))"

text \<open>
  \<^verbatim>\<open>pullRequest.labels(l => l.name)\<close> calls the value of the property. The payload is
  decoded JSON, so that value is no function and the call throws \<^verbatim>\<open>TypeError\<close>.
\<close>

definition call_labels :: "json \<Rightarrow> error + string list" where
  "call_labels f = Inl (TypeError ''pullRequest.labels is not a function'')"

definition getThisPr :: "env \<Rightarrow> error + (nat \<times> string set) option" where
  "getThisPr env =
     (case pull_request env of
        None \<Rightarrow> Inr None
      | Some pullRequest \<Rightarrow>
          (case call_labels (payload_labels pullRequest) of
             Inl e \<Rightarrow> Inl e
           | Inr names \<Rightarrow> Inr (Some (payload_number pullRequest, new_Set_spread names))))"

text \<open>Lines 46 to 65, for the pull requests the inner loop is given. How the loop over
  one page ends: by the \<^verbatim>\<open>return\<close> of line 52, or at the end
  of the page with what is left of the budget.\<close>

datatype page_end = Returned | Page_done jsnum

fun sweep_page ::
  "env \<Rightarrow> (string \<times> json list) list \<Rightarrow> string \<Rightarrow> jsnum \<Rightarrow> jsnum \<Rightarrow> pull list
   \<Rightarrow> event list \<times> page_end"
where
  "sweep_page env labelGlobs notFoundLabel operationsPerRun operationsLeft [] =
     ([], Page_done operationsLeft)"
| "sweep_page env labelGlobs notFoundLabel operationsPerRun operationsLeft (pr # rest) =
     (if le_zero operationsLeft then
        ([Debug (''performing labeler at pr '' @ string_of_nat (number pr)),
          Warning (''performed '' @ string_of_jsnum operationsPerRun
                   @ '' operations, exiting to avoid rate limit'')], Returned)
      else
        (case processPR env (number pr) (new_Set_spread (label_names pr)) labelGlobs notFoundLabel of
           (t, added) \<Rightarrow>
             (case sweep_page env labelGlobs notFoundLabel operationsPerRun
                     (if added then minus_one operationsLeft else operationsLeft) rest of
                (t', r) \<Rightarrow>
                  (Debug (''performing labeler at pr '' @ string_of_nat (number pr)) # t @ t', r))))"

text \<open>
  \<^verbatim>\<open>for (const pr of response)\<close> (line 46) asks the yielded value itself for its
  elements. The value is a response object, not the array under its \<^verbatim>\<open>data\<close>; an object
  of this kind is not iterable, so the statement throws \<^verbatim>\<open>TypeError\<close> before the first
  turn of the loop.
\<close>

definition for_of_response :: "response \<Rightarrow> error + pull list" where
  "for_of_response response = Inl (TypeError ''response is not iterable'')"

text \<open>The \<^verbatim>\<open>for await\<close> loop over the pages still to fetch.\<close>

fun sweep ::
  "env \<Rightarrow> (string \<times> json list) list \<Rightarrow> string \<Rightarrow> jsnum \<Rightarrow> jsnum \<Rightarrow> (error + response) list
   \<Rightarrow> unit act"
where
  "sweep env labelGlobs notFoundLabel operationsPerRun operationsLeft [] = unit_act ()"
| "sweep env labelGlobs notFoundLabel operationsPerRun operationsLeft (page # pages) =
     then_act (emit [Api_pulls_list])
       (case page of
          Inl e \<Rightarrow> throw e
        | Inr response \<Rightarrow>
            (case for_of_response response of
               Inl e \<Rightarrow> throw e
             | Inr prs \<Rightarrow>
                 (case sweep_page env labelGlobs notFoundLabel operationsPerRun operationsLeft prs of
                    (t, Returned) \<Rightarrow> (t, Inr ())
                  | (t, Page_done left) \<Rightarrow>
                      then_act (emit t)
                        (sweep env labelGlobs notFoundLabel operationsPerRun left pages))))"

text \<open>Lines 12 to 17: the budget read from its input, and the check on it.\<close>

definition check_operationsPerRun :: "string \<Rightarrow> error + jsnum" where
  "check_operationsPerRun raw =
     (let operationsPerRun = parseInt raw
      in if le_zero operationsPerRun then
           Inl (Error (''operations-per-run must be greater than zero, got ''
                       @ string_of_jsnum operationsPerRun))
         else Inr operationsPerRun)"

definition run_try :: "env \<Rightarrow> unit act" where
  "run_try env =
     bind_act (getInput env ''repo-token'' True) (\<lambda>token.
     bind_act (getInput env ''configuration-path'' True) (\<lambda>configPath.
     bind_act (getInput env ''not-found-label'' False) (\<lambda>notFoundLabel.
     bind_act (getInput env ''operations-per-run'' True) (\<lambda>raw.
     bind_act (lift (check_operationsPerRun raw)) (\<lambda>operationsPerRun.
     bind_act (getLabelGlobs env configPath) (\<lambda>labelGlobs.
     bind_act (lift (getThisPr env)) (\<lambda>thisPr.
       (case thisPr of
          Some (prNumber, existingLabels) \<Rightarrow>
            (case processPR env prNumber existingLabels labelGlobs notFoundLabel of
               (t, _) \<Rightarrow> (t, Inr ()))
        | None \<Rightarrow>
            sweep env labelGlobs notFoundLabel operationsPerRun operationsPerRun
              (open_pulls env)))))))))"

text \<open>\<^verbatim>\<open>run\<close>: everything the run emits, the \<^verbatim>\<open>catch\<close> of line 67 included.\<close>

definition run :: "env \<Rightarrow> event list" where
  "run env =
     (case run_try env of
        (t, Inl e) \<Rightarrow> t @ [ErrorLog e, SetFailed (message e)]
      | (t, Inr _) \<Rightarrow> t)"

section \<open>Reading a trace\<close>

fun is_addLabels :: "event \<Rightarrow> bool" where
  "is_addLabels (Api_addLabels n ls) = True"
| "is_addLabels _ = False"

fun is_listFiles :: "event \<Rightarrow> bool" where
  "is_listFiles (Api_listFiles n) = True"
| "is_listFiles _ = False"

fun is_pulls_list :: "event \<Rightarrow> bool" where
  "is_pulls_list Api_pulls_list = True"
| "is_pulls_list _ = False"

fun is_Warning :: "event \<Rightarrow> bool" where
  "is_Warning (Warning m) = True"
| "is_Warning _ = False"



text \<open>A configuration value that is neither a string nor an array.\<close>

fun unexpected :: "json \<Rightarrow> bool" where
  "unexpected (JString g) = False"
| "unexpected (JArray gs) = False"
| "unexpected _ = True"

definition unexpected_message :: "string \<Rightarrow> string" where
  "unexpected_message label =
     ''found unexpected type for label '' @ label @ '' (should be string or array of globs)''"

text \<open>The events of \<^verbatim>\<open>processPR\<close> up to the decision loop when the changed files were
  fetched, and the events of \<^verbatim>\<open>addLabels\<close>.\<close>

definition fetched :: "nat \<Rightarrow> string list \<Rightarrow> event list" where
  "fetched n files = [Debug (''fetching changed files for pr #'' @ string_of_nat n), Api_listFiles n,
     Debug ''found changed files:''] @ map (\<lambda>file. Debug (''  '' @ file)) files"

definition adding :: "nat \<Rightarrow> string list \<Rightarrow> event list" where
  "adding n ls = [Debug (''adding labels to pr #{prNumber}: ''
                            @ join '', '' (map (\<lambda>l. [CHR 0x22] @ l @ [CHR 0x22]) ls)),
                     Api_addLabels n ls]"

section \<open>A sample repository\<close>

text \<open>
  Concrete inputs for the scenarios below: the rules of the spec's scenario, a
  repository whose pull requests change \<^verbatim>\<open>docs/readme.md\<close> and \<^verbatim>\<open>src/app.ts\<close> when
  numbered below 100 and \<^verbatim>\<open>README.md\<close> from 100 on (number 0 does not exist), and the
  glob semantics of \<open>Minimatch_model\<close>.
\<close>

definition sample_config :: json where
  "sample_config = JObject [(''docs'', JArray [JString ''docs/**'']), (''ts'', JString ''*.ts'')]"

definition sample_rules :: "(string \<times> json list) list" where
  "sample_rules = [(''docs'', [JString ''docs/**'']), (''ts'', [JString ''*.ts''])]"

definition sample_input :: "string \<Rightarrow> string \<Rightarrow> string" where
  "sample_input operations name =
     (if name = ''repo-token'' then ''secret''
      else if name = ''configuration-path'' then ''.github/labeler.yml''
      else if name = ''operations-per-run'' then operations
      else [])"

definition sample_listFiles :: "nat \<Rightarrow> error + string list" where
  "sample_listFiles prNumber =
     (if prNumber = 0 then Inl (Error ''Not Found'')
      else if prNumber < 100 then Inr [''docs/readme.md'', ''src/app.ts'']
      else Inr [''README.md''])"

definition sample_env ::
  "string \<Rightarrow> pull_request_payload option \<Rightarrow> (error + response) list
   \<Rightarrow> (nat \<Rightarrow> string list \<Rightarrow> error option) \<Rightarrow> env"
where
  "sample_env operations payload pages responses =
     \<lparr> input = sample_input operations,
       configuration = (\<lambda>path. if path = ''.github/labeler.yml'' then Inr sample_config
                                else Inl (Error ''Not Found'')),
       Minimatch = Minimatch_model,
       pull_request = payload,
       open_pulls = pages,
       listFiles = sample_listFiles,
       addLabels_response = responses \<rparr>"

definition always_added :: "nat \<Rightarrow> string list \<Rightarrow> error option" where
  "always_added prNumber labels = None"


section \<open>Properties of the model\<close>

lemma then_act_emit [simp]: "then_act (emit evs) m = (evs @ fst m, snd m)"
  by (cases m) (simp add: then_act_def bind_act_def emit_def)

lemma bind_act_unit [simp]: "bind_act (unit_act x) f = f x"
  by (cases "f x") (simp add: bind_act_def unit_act_def)

lemma bind_act_lift [simp]:
  "bind_act (lift (Inr x)) f = f x"
  "bind_act (lift (Inl e)) f = ([], Inl e)"
  by (cases "f x") (simp_all add: bind_act_def lift_def)

lemma bind_act_throw [simp]: "bind_act (throw e) f = ([], Inl e)"
  by (simp add: bind_act_def throw_def)

lemma bind_act_pair [simp]:
  "bind_act (t, Inr x) f = (t @ fst (f x), snd (f x))"
  "bind_act (t, Inl e) f = (t, Inl e)"
  by (cases "f x") (simp_all add: bind_act_def)

lemma then_act_pair [simp]:
  "then_act (t, Inr u) m = (t @ fst m, snd m)"
  "then_act (t, Inl e) m = (t, Inl e)"
  by (simp_all add: then_act_def)

lemma fst_unit_act [simp]: "fst (unit_act x) = []" "snd (unit_act x) = Inr x"
  by (simp_all add: unit_act_def)

lemma fst_throw [simp]: "fst (throw e) = []" "snd (throw e) = Inl e"
  by (simp_all add: throw_def)


lemma match_files_result: "snd (match_files matcher files) = (\<exists>f \<in> set files. matcher f)"
  by (induction files) (auto split: prod.splits)




lemma processPR_unfold:
  "processPR env n ex lg nf =
     (case listFiles env n of
        Inl e \<Rightarrow> ([Debug (''fetching changed files for pr #'' @ string_of_nat n), Api_listFiles n,
                   ErrorLog e, SetFailed (message e)], False)
      | Inr files \<Rightarrow>
          (case labelsToAdd_of env ex files lg nf of
             (t, Inl e) \<Rightarrow> (fetched n files @ t @ [ErrorLog e, SetFailed (message e)], False)
           | (t, Inr ls) \<Rightarrow>
               if ls = [] then (fetched n files @ t, False)
               else (case addLabels_response env n ls of
                       Some e \<Rightarrow> (fetched n files @ t @ adding n ls @ [ErrorLog e, SetFailed (message e)], False)
                     | None \<Rightarrow> (fetched n files @ t @ adding n ls, True))))"
  by (simp add: processPR_def processPR_try_def getChangedFiles_def addLabels_def fetched_def adding_def
      split: sum.splits prod.splits option.splits)


lemma fetched_filter [simp]:
  "filter is_addLabels (fetched n files) = []"
  "filter is_listFiles (fetched n files) = [Api_listFiles n]"
  "filter is_Warning (fetched n files) = []"
  "filter is_pulls_list (fetched n files) = []"
  by (simp_all add: fetched_def filter_empty_conv)

lemma adding_filter [simp]:
  "filter is_addLabels (adding n ls) = [Api_addLabels n ls]"
  "filter is_listFiles (adding n ls) = []"
  "filter is_Warning (adding n ls) = []"
  "filter is_pulls_list (adding n ls) = []"
  by (simp_all add: adding_def)



lemma checkGlobs_model:
  assumes "Minimatch env = Minimatch_model"
  shows "snd (checkGlobs env files (map JString patterns))
           = Inr (\<exists>p \<in> set patterns. \<exists>f \<in> set files. glob_match p f)"
proof (induction patterns)
  case Nil
  show ?case by simp
next
  case (Cons p patterns)
  obtain t b where m: "match_files (glob_match p) files = (t, b)" by (cases "match_files (glob_match p) files")
  have b: "b = (\<exists>f \<in> set files. glob_match p f)"
    using match_files_result [of "glob_match p" files] m by simp
  show ?case using Cons m b assms by (cases b) auto
qed

lemma labelGlobs_loop_unexpected:
  "\<exists>p \<in> set ps. unexpected (snd p) \<Longrightarrow>
     labelGlobs_loop ps acc = Inl (Error (unexpected_message (fst (hd (filter (\<lambda>p. unexpected (snd p)) ps)))))"
proof (induction ps arbitrary: acc)
  case Nil
  then show ?case by simp
next
  case (Cons p ps)
  obtain label v where p: "p = (label, v)" by (cases p)
  show ?case
  proof (cases "unexpected v")
    case True
    then show ?thesis unfolding p by (cases v) (simp_all add: unexpected_message_def)
  next
    case False
    with Cons.prems p have "\<exists>p \<in> set ps. unexpected (snd p)" by auto
    from Cons.IH [OF this] False show ?thesis unfolding p by (cases v) simp_all
  qed
qed

lemma labelGlobs_loop_expected:
  "\<forall>p \<in> set ps. \<not> unexpected (snd p) \<Longrightarrow> \<exists>lg. labelGlobs_loop ps acc = Inr lg"
proof (induction ps arbitrary: acc)
  case Nil
  show ?case by simp
next
  case (Cons p ps)
  obtain label v where p: "p = (label, v)" by (cases p)
  from Cons show ?case unfolding p by (cases v) simp_all
qed

lemma snd_bind_act:
  "snd (bind_act m f) = (case snd m of Inl e \<Rightarrow> Inl e | Inr x \<Rightarrow> snd (f x))"
  by (cases m; cases "snd m") (auto simp: bind_act_def split: prod.splits)

lemma glob_examples:
  "glob_match ''src/**/*.ts'' ''src/a/b.ts''"
  "\<not> glob_match ''src/**/*.ts'' ''src/a/b.js''"
  "\<not> glob_match ''src/**/*.ts'' ''lib/b.ts''"
  "glob_match ''docs/**'' ''docs/readme.md''"
  "\<not> glob_match ''*.ts'' ''docs/readme.md''"
  "\<not> glob_match ''*.ts'' ''src/app.ts''"
  "glob_match ''*.ts'' ''app.ts''"
  "\<not> glob_match ''docs/**'' ''app.ts''"
  "glob_match ''src/*.{ts,js}'' ''src/a.js''"
  "\<not> glob_match ''src/*.{ts,js}'' ''src/a.md''"
  "glob_match ''src/[ab].ts'' ''src/a.ts''"
  "\<not> glob_match ''src/[ab].ts'' ''src/c.ts''"
  by code_simp+


text \<open>Whenever the payload holds a pull request, \<^verbatim>\<open>getThisPr\<close> throws.\<close>

lemma getThisPr_throws:
  "pull_request env = Some pullRequest \<Longrightarrow>
     getThisPr env = Inl (TypeError ''pullRequest.labels is not a function'')"
  by (simp add: getThisPr_def call_labels_def)

lemma sweep_page_exhausted:
  assumes "le_zero left"
  shows "filter is_listFiles (fst (sweep_page env lg nf opr left prs)) = []"
    and "filter is_addLabels (fst (sweep_page env lg nf opr left prs)) = []"
    and "filter is_pulls_list (fst (sweep_page env lg nf opr left prs)) = []"
    and "snd (sweep_page env lg nf opr left prs) = (if prs = [] then Page_done left else Returned)"
  using assms by (cases prs; simp)+









text \<open>The set that \<^verbatim>\<open>new Set(...names)\<close> builds holds the characters of the first name.\<close>

lemma new_Set_spread_first:
  "new_Set_spread (name # names) = (\<lambda>c. [c]) ` set name"
  by (simp add: new_Set_spread_def)








section \<open>The claims\<close>

subsection \<open>C1: the existing labels\<close>




subsection \<open>C2: the operation budget\<close>

text \<open>
  Claim C2 against the code. The sweep iterates the value the pagination yields
  (line 46), which is the response object and not the array of pull requests under
  its \<^verbatim>\<open>data\<close>; the statement throws and the \<^verbatim>\<open>catch\<close> of \<^verbatim>\<open>run\<close> marks the run
  failed. With a budget of 1 and two open pull requests whose changed files a rule
  matches, the run fetches the first page and stops: it evaluates no pull request and
  issues no label-add call, where the claim has it issue exactly one.
\<close>

theorem C2_sweep_issues_no_add:
  "check_operationsPerRun ''1'' = Inr (Fin 1)
   \<and> sample_listFiles 1 = Inr [''docs/readme.md'', ''src/app.ts'']
   \<and> sample_listFiles 2 = Inr [''docs/readme.md'', ''src/app.ts'']
   \<and> snd (labelsToAdd_of (sample_env ''1'' None [] always_added) {} [''docs/readme.md'', ''src/app.ts'']
            sample_rules []) = Inr [''docs'']
   \<and> run (sample_env ''1'' None
            [Inr \<lparr>data = [\<lparr>number = 1, label_names = []\<rparr>, \<lparr>number = 2, label_names = []\<rparr>]\<rparr>]
            always_added)
       = [Api_getContents ''.github/labeler.yml'', Api_pulls_list,
          ErrorLog (TypeError ''response is not iterable''),
          SetFailed ''response is not iterable'']"
  by code_simp

subsection \<open>C3: the run for one pull request\<close>

text \<open>
  Claim C3 against the code. \<^verbatim>\<open>getThisPr\<close> calls \<^verbatim>\<open>pullRequest.labels\<close> as a function;
  the payload is decoded JSON, the call throws, and the \<^verbatim>\<open>catch\<close> of \<^verbatim>\<open>run\<close> marks
  the run failed. For a pull-request event on pull request 7, labelled \<^verbatim>\<open>bug\<close>, the run
  reads the configuration and stops: it fetches no changed files and issues no
  label-add call.
\<close>

theorem C3_single_pr_run_fails:
  "run (sample_env ''10''
          (Some \<lparr>payload_number = 7, payload_labels = JArray [JObject [(''name'', JString ''bug'')]]\<rparr>)
          [] always_added)
     = [Api_getContents ''.github/labeler.yml'',
        ErrorLog (TypeError ''pullRequest.labels is not a function''),
        SetFailed ''pullRequest.labels is not a function'']"
  by code_simp

subsection \<open>C4: the matcher\<close>

text \<open>
  Claim C4: with the glob semantics of the model, \<^verbatim>\<open>checkGlobs\<close> on any list of changed
  files and any list of string patterns returns true if and only if some pattern
  matches some file; an empty file list and an empty pattern list give false. The
  pattern \<^verbatim>\<open>src/**/*.ts\<close> matches \<^verbatim>\<open>src/a/b.ts\<close> and matches neither \<^verbatim>\<open>src/a/b.js\<close>
  nor \<^verbatim>\<open>lib/b.ts\<close>.
\<close>

theorem C4_checkGlobs:
  assumes "Minimatch env = Minimatch_model"
  shows "snd (checkGlobs env files (map JString patterns))
           = Inr (\<exists>p \<in> set patterns. \<exists>f \<in> set files. glob_match p f)
       \<and> snd (checkGlobs env [] (map JString patterns)) = Inr False
       \<and> snd (checkGlobs env files []) = Inr False
       \<and> glob_match ''src/**/*.ts'' ''src/a/b.ts''
       \<and> \<not> glob_match ''src/**/*.ts'' ''src/a/b.js''
       \<and> \<not> glob_match ''src/**/*.ts'' ''lib/b.ts''"
  using checkGlobs_model [OF assms, of files patterns] checkGlobs_model [OF assms, of "[]" patterns]
  by (simp add: glob_examples)

text \<open>Witness for C4: the patterns of the claim, a brace alternation and a bracket
  class against lists of files.\<close>

theorem C4_checkGlobs_witness:
  "Minimatch (sample_env ''1'' None [] always_added) = Minimatch_model
   \<and> snd (checkGlobs (sample_env ''1'' None [] always_added) [''lib/b.ts'', ''src/a/b.ts'']
            (map JString [''docs/**'', ''src/**/*.ts''])) = Inr True
   \<and> snd (checkGlobs (sample_env ''1'' None [] always_added) [''lib/b.ts'', ''src/a/b.js'']
            (map JString [''docs/**'', ''src/**/*.ts''])) = Inr False
   \<and> snd (checkGlobs (sample_env ''1'' None [] always_added) [''src/a.js'']
            (map JString [''src/[xy].js'', ''src/*.{ts,js}''])) = Inr True"
proof -
  have h: "Minimatch (sample_env ''1'' None [] always_added) = Minimatch_model"
    by (simp add: sample_env_def)
  from C4_checkGlobs [OF h, of "[''lib/b.ts'', ''src/a/b.ts'']" "[''docs/**'', ''src/**/*.ts'']"]
    C4_checkGlobs [OF h, of "[''lib/b.ts'', ''src/a/b.js'']" "[''docs/**'', ''src/**/*.ts'']"]
    C4_checkGlobs [OF h, of "[''src/a.js'']" "[''src/[xy].js'', ''src/*.{ts,js}'']"]
  have "snd (checkGlobs (sample_env ''1'' None [] always_added) [''lib/b.ts'', ''src/a/b.ts'']
            (map JString [''docs/**'', ''src/**/*.ts'']))
          = Inr (\<exists>p \<in> set [''docs/**'', ''src/**/*.ts'']. \<exists>f \<in> set [''lib/b.ts'', ''src/a/b.ts'']. glob_match p f)"
    and "snd (checkGlobs (sample_env ''1'' None [] always_added) [''lib/b.ts'', ''src/a/b.js'']
            (map JString [''docs/**'', ''src/**/*.ts'']))
          = Inr (\<exists>p \<in> set [''docs/**'', ''src/**/*.ts'']. \<exists>f \<in> set [''lib/b.ts'', ''src/a/b.js'']. glob_match p f)"
    and "snd (checkGlobs (sample_env ''1'' None [] always_added) [''src/a.js'']
            (map JString [''src/[xy].js'', ''src/*.{ts,js}'']))
          = Inr (\<exists>p \<in> set [''src/[xy].js'', ''src/*.{ts,js}'']. \<exists>f \<in> set [''src/a.js'']. glob_match p f)"
    by blast+
  moreover have "(\<exists>p \<in> set [''docs/**'', ''src/**/*.ts'']. \<exists>f \<in> set [''lib/b.ts'', ''src/a/b.ts'']. glob_match p f) = True"
    by code_simp
  moreover have "(\<exists>p \<in> set [''docs/**'', ''src/**/*.ts'']. \<exists>f \<in> set [''lib/b.ts'', ''src/a/b.js'']. glob_match p f) = False"
    by code_simp
  moreover have "(\<exists>p \<in> set [''src/[xy].js'', ''src/*.{ts,js}'']. \<exists>f \<in> set [''src/a.js'']. glob_match p f) = True"
    by code_simp
  ultimately show ?thesis using h by simp
qed

subsection \<open>C5: the not-found label\<close>

text \<open>
  Claim C5: when the loop over the rules has completed, the decision is exactly the
  one-element list of the not-found label if no rule pushed a label and the not-found
  label is a non-empty string; it stays empty if no rule pushed a label and no not-found
  label is configured (the input is the empty string); and it is the list the rules
  pushed, with no not-found label appended, if that list is not empty. The decision
  step logs nothing of its own.
\<close>

theorem C5_fallback:
  assumes "snd (rules_loop env ex files lg []) = Inr ls"
  shows "fst (labelsToAdd_of env ex files lg nf) = fst (rules_loop env ex files lg [])
       \<and> (ls = [] \<and> nf \<noteq> [] \<longrightarrow> snd (labelsToAdd_of env ex files lg nf) = Inr [nf])
       \<and> (ls = [] \<and> nf = [] \<longrightarrow> snd (labelsToAdd_of env ex files lg nf) = Inr [])
       \<and> (ls \<noteq> [] \<longrightarrow> snd (labelsToAdd_of env ex files lg nf) = Inr ls)"
  using assms
  by (cases "rules_loop env ex files lg []") (simp add: labelsToAdd_of_def push_notFound_def)

text \<open>Witness for C5: the spec's scenarios with \<^verbatim>\<open>README.md\<close> changed, with and without
  the not-found label, and a pull request that a rule matches.\<close>

theorem C5_fallback_witness:
  "snd (rules_loop (sample_env ''1'' None [] always_added) {} [''README.md''] sample_rules []) = Inr []
   \<and> snd (rules_loop (sample_env ''1'' None [] always_added) {} [''docs/readme.md''] sample_rules []) = Inr [''docs'']
   \<and> snd (labelsToAdd_of (sample_env ''1'' None [] always_added) {} [''README.md''] sample_rules ''needs-triage'')
        = Inr [''needs-triage'']
   \<and> snd (labelsToAdd_of (sample_env ''1'' None [] always_added) {} [''README.md''] sample_rules []) = Inr []
   \<and> snd (labelsToAdd_of (sample_env ''1'' None [] always_added) {} [''docs/readme.md''] sample_rules ''needs-triage'')
        = Inr [''docs'']"
proof -
  have h1: "snd (rules_loop (sample_env ''1'' None [] always_added) {} [''README.md''] sample_rules []) = Inr []"
    by code_simp
  have h2: "snd (rules_loop (sample_env ''1'' None [] always_added) {} [''docs/readme.md''] sample_rules []) = Inr [''docs'']"
    by code_simp
  from C5_fallback [OF h1, of "''needs-triage''"] C5_fallback [OF h1, of "[]"]
    C5_fallback [OF h2, of "''needs-triage''"] h1 h2
  show ?thesis by simp
qed

subsection \<open>C6: a configuration value of an unexpected shape\<close>

text \<open>
  Claim C6: for a configuration mapping with an entry whose value is neither a string
  nor an array (a number, an object, the empty object, null, a boolean), building the
  rule set throws; no rule set is returned. The message of the error names the key of
  the first such entry, which is an entry of the mapping with an unexpected value, and
  is the given entry's key when no entry before it is unexpected.
\<close>

theorem C6_unexpected_value:
  assumes "(label, v) \<in> set ps" and "unexpected v"
  shows "getLabelGlobMapFromObject (JObject ps)
           = Inl (Error (''found unexpected type for label ''
                         @ fst (hd (filter (\<lambda>p. unexpected (snd p)) ps))
                         @ '' (should be string or array of globs)''))
       \<and> hd (filter (\<lambda>p. unexpected (snd p)) ps) \<in> set ps
       \<and> unexpected (snd (hd (filter (\<lambda>p. unexpected (snd p)) ps)))
       \<and> (list_all (\<lambda>p. \<not> unexpected (snd p)) (takeWhile (\<lambda>p. p \<noteq> (label, v)) ps) \<longrightarrow>
            getLabelGlobMapFromObject (JObject ps)
              = Inl (Error (''found unexpected type for label '' @ label
                            @ '' (should be string or array of globs)'')))
       \<and> unexpected (JNum n) \<and> unexpected (JObject qs) \<and> unexpected (JObject [])
       \<and> unexpected JNull \<and> unexpected (JBool b)"
proof -
  let ?bad = "filter (\<lambda>p. unexpected (snd p)) ps"
  from assms have ex: "\<exists>p \<in> set ps. unexpected (snd p)" by force
  then have ne: "?bad \<noteq> []" by (simp add: filter_empty_conv)
  then have "hd ?bad \<in> set ?bad" by (rule hd_in_set)
  then have mem: "hd ?bad \<in> set ps" and bad: "unexpected (snd (hd ?bad))" by simp_all
  have res: "getLabelGlobMapFromObject (JObject ps)
           = Inl (Error (''found unexpected type for label '' @ fst (hd ?bad)
                         @ '' (should be string or array of globs)''))"
    using labelGlobs_loop_unexpected [OF ex, of "[]"]
    by (simp add: getLabelGlobMapFromObject_def unexpected_message_def)
  have first: "list_all (\<lambda>p. \<not> unexpected (snd p)) (takeWhile (\<lambda>p. p \<noteq> (label, v)) ps)
                 \<Longrightarrow> hd ?bad = (label, v)"
    using assms
  proof (induction ps)
    case Nil
    then show ?case by simp
  next
    case (Cons p ps)
    then show ?case by (cases "p = (label, v)") auto
  qed
  from res mem bad first show ?thesis by auto
qed

text \<open>Witness for C6: a label mapped to a number, after a well-formed entry.\<close>

theorem C6_unexpected_value_witness:
  "(''ts'', JNum 3) \<in> set [(''docs'', JArray [JString ''docs/**'']), (''ts'', JNum 3), (''x'', JNull)]
   \<and> unexpected (JNum 3)
   \<and> list_all (\<lambda>p. \<not> unexpected (snd p))
        (takeWhile (\<lambda>p. p \<noteq> (''ts'', JNum 3)) [(''docs'', JArray [JString ''docs/**'']), (''ts'', JNum 3), (''x'', JNull)])
   \<and> getLabelGlobMapFromObject (JObject [(''docs'', JArray [JString ''docs/**'']), (''ts'', JNum 3), (''x'', JNull)])
       = Inl (Error ''found unexpected type for label ts (should be string or array of globs)'')"
proof -
  have h1: "(''ts'', JNum 3) \<in> set [(''docs'', JArray [JString ''docs/**'']), (''ts'', JNum 3), (''x'', JNull)]"
    by simp
  have h2: "unexpected (JNum 3)" by simp
  have h3: "list_all (\<lambda>p. \<not> unexpected (snd p))
        (takeWhile (\<lambda>p. p \<noteq> (''ts'', JNum 3)) [(''docs'', JArray [JString ''docs/**'']), (''ts'', JNum 3), (''x'', JNull)])"
    by simp
  from C6_unexpected_value [OF h1 h2] h1 h2 h3 show ?thesis by simp
qed

subsection \<open>C7: after the budget is used up\<close>



subsection \<open>C8: an error while one pull request is evaluated\<close>




subsection \<open>C9: the scenario of the spec\<close>

text \<open>
  Claim C9, as stated, gives the decision \<^verbatim>\<open>["docs", "ts"]\<close> for the rules
  \<^verbatim>\<open>{"docs": ["docs/**"], "ts": ["*.ts"]}\<close>, the changed files \<^verbatim>\<open>docs/readme.md\<close> and
  \<^verbatim>\<open>src/app.ts\<close> and no existing label. The pattern \<^verbatim>\<open>*.ts\<close> has one segment and
  \<^verbatim>\<open>*\<close> stays within a segment, so it does not match \<^verbatim>\<open>src/app.ts\<close>: the decision is
  \<^verbatim>\<open>["docs"]\<close>.
\<close>

theorem C9_counterexample:
  "getLabelGlobMapFromObject sample_config = Inr sample_rules
   \<and> snd (labelsToAdd_of (sample_env ''1'' None [] always_added) {} [''docs/readme.md'', ''src/app.ts'']
            sample_rules []) \<noteq> Inr [''docs'', ''ts'']"
  by code_simp

text \<open>
  Claim C9, amended: with these rules, these changed files and no existing label the
  decision is \<^verbatim>\<open>["docs"]\<close>, since \<^verbatim>\<open>*.ts\<close> does not match \<^verbatim>\<open>src/app.ts\<close>; with the
  changed files \<^verbatim>\<open>docs/readme.md\<close> and \<^verbatim>\<open>app.ts\<close> it is \<^verbatim>\<open>["docs", "ts"]\<close>, the labels in
  the order of the rules.
\<close>

theorem C9_scenario:
  assumes "Minimatch env = Minimatch_model"
  shows "getLabelGlobMapFromObject sample_config = Inr sample_rules
       \<and> snd (labelsToAdd_of env {} [''docs/readme.md'', ''src/app.ts''] sample_rules nf) = Inr [''docs'']
       \<and> snd (labelsToAdd_of env {} [''docs/readme.md'', ''app.ts''] sample_rules nf) = Inr [''docs'', ''ts'']
       \<and> \<not> glob_match ''*.ts'' ''src/app.ts''"
proof -
  have cfg: "getLabelGlobMapFromObject sample_config = Inr sample_rules" by code_simp
  have a: "snd (rules_loop env {} [''docs/readme.md'', ''src/app.ts''] sample_rules []) = Inr [''docs'']"
    using assms by (simp add: sample_rules_def glob_examples)
  have b: "snd (rules_loop env {} [''docs/readme.md'', ''app.ts''] sample_rules []) = Inr [''docs'', ''ts'']"
    using assms by (simp add: sample_rules_def glob_examples)
  from a b cfg show ?thesis
    by (simp add: labelsToAdd_of_def push_notFound_def glob_examples snd_bind_act)
qed

text \<open>Witness for C9: the sample repository, with no not-found label.\<close>

theorem C9_scenario_witness:
  "Minimatch (sample_env ''1'' None [] always_added) = Minimatch_model
   \<and> snd (labelsToAdd_of (sample_env ''1'' None [] always_added) {} [''docs/readme.md'', ''src/app.ts'']
            sample_rules []) = Inr [''docs'']
   \<and> snd (labelsToAdd_of (sample_env ''1'' None [] always_added) {} [''docs/readme.md'', ''app.ts'']
            sample_rules []) = Inr [''docs'', ''ts'']"
proof -
  have h: "Minimatch (sample_env ''1'' None [] always_added) = Minimatch_model"
    by (simp add: sample_env_def)
  from C9_scenario [OF h, of "[]"] h show ?thesis by simp
qed

subsection \<open>C10: a budget that is not a number\<close>



end
